theory Spec2Isabelle
  imports Main "HOL-Library.Word"
begin

section \<open>Machine types and outcomes\<close>

text \<open>
  \<open>size_t\<close> is the unsigned 64-bit integer, \<open>int\<close> the 32-bit two's complement
  integer (read with \<open>sint\<close>), \<open>uint8_t\<close> the unsigned byte. A raw pointer \<open>T*\<close> is an
  address counted in elements of \<open>T\<close>; \<open>nullptr\<close> is address 0 and \<open>p + k\<close> is integer
  addition. The machine holds a pointer as a 64-bit byte address: the pointer to element
  address \<open>p\<close> is the byte address \<open>p * sizeof(T)\<close> modulo \<open>2^64\<close>, and the arithmetic
  and comparison of cursors happen there.
\<close>

type_synonym size_t = "64 word"
type_synonym c_int = "32 word"
type_synonym uint8_t = "8 word"
type_synonym raw_ptr = int
type_synonym address = "64 word"

definition nullptr :: raw_ptr where
  "nullptr = 0"

definition machine_ptr :: "size_t \<Rightarrow> raw_ptr \<Rightarrow> address" where
  "machine_ptr sizeof_T p = word_of_int p * sizeof_T"

text \<open>
  A C++ exception is a value; a failed \<open>assert\<close> ends the process and is no
  exception, so no handler sees it.
\<close>

datatype exn = OutOfRangeError string | BadAlloc

datatype fault = Throw exn | Abort

type_synonym 'a result = "fault + 'a"

text \<open>\<open>try { body } catch(...) { handler }\<close>: every exception of the body is handled.\<close>

definition try_catch_all :: "'a result \<Rightarrow> (exn \<Rightarrow> 'a result) \<Rightarrow> 'a result" where
  "try_catch_all body handler =
     (case body of
        Inl (Throw e) \<Rightarrow> handler e
      | Inl Abort \<Rightarrow> Inl Abort
      | Inr v \<Rightarrow> Inr v)"

section \<open>buffer\_assert: the assertion hook\<close>

text \<open>Decimal digits, as \<open>%d\<close> prints them.\<close>

fun show_nat :: "nat \<Rightarrow> string" where
  "show_nat n =
     (if n < 10 then [''0123456789'' ! n]
      else show_nat (n div 10) @ [''0123456789'' ! (n mod 10)])"

declare show_nat.simps [simp del]

definition show_int :: "int \<Rightarrow> string" where
  "show_int i = (if i < 0 then CHR ''-'' # show_nat (nat (- i)) else show_nat (nat i))"

definition OUT_OF_RANGE_STRING :: string where
  "OUT_OF_RANGE_STRING = ''Buffer access out of bounds''"

text \<open>
  The text that \<open>formatString\<close>,
  \<^verbatim>\<open>%s:%d buffer assert condition failed. Got %d from "%s"\<close>, expands to.
\<close>

definition formatString :: "string \<Rightarrow> c_int \<Rightarrow> c_int \<Rightarrow> string \<Rightarrow> string" where
  "formatString file line condition conditionString =
     file @ '':'' @ show_int (sint line) @ '' buffer assert condition failed. Got ''
       @ show_int (sint condition) @ '' from '' @ [CHR 0x22] @ conditionString @ [CHR 0x22]"

text \<open>
  \<open>std::snprintf(buffer, size, ...)\<close> writes at most \<open>size - 1\<close> characters and the
  terminator; it raises no exception. The result is the content of \<open>buffer\<close>.
\<close>

definition snprintf :: "nat \<Rightarrow> string \<Rightarrow> string" where
  "snprintf n formatted = take (n - 1) formatted"

definition assert_hook :: "string \<Rightarrow> c_int \<Rightarrow> c_int \<Rightarrow> string \<Rightarrow> unit result" where
  "assert_hook file line condition conditionString =
     try_catch_all
       (let buffer = snprintf 1024 (formatString file line condition conditionString)
        in Inl (Throw (OutOfRangeError buffer)))
       (\<lambda>_. Inl (Throw (OutOfRangeError OUT_OF_RANGE_STRING)))"

section \<open>Compile-time configuration and the bounds-check macros\<close>

text \<open>
  The three \<open>CPPBUFFER_*\<close> flags are read by \<open>buffer_assert.h\<close> and set in
  \<open>buffer_definitions.h\<close>, which is not among the sources: they are parameters.
  \<open>NDEBUG\<close> is the standard switch of \<open>assert\<close>. All four are fixed at compile time.
\<close>

record config =
  CPPBUFFER_USES_ASSERT :: bool
  CPPBUFFER_ASSERT_USES_CASSERT :: bool
  CPPBUFFER_ASSERT_USES_EXCEPTIONS :: bool
  NDEBUG :: bool

text \<open>The \<open>assert\<close> macro of \<open>cassert\<close>: nothing under \<open>NDEBUG\<close>, else abort on false.\<close>

definition assert :: "config \<Rightarrow> bool \<Rightarrow> unit result" where
  "assert cfg cond = (if NDEBUG cfg then Inr () else if cond then Inr () else Inl Abort)"

text \<open>
  The macro \<open>cpp_buffer_assert(cond_)\<close>, expanded at \<open>file\<close>, \<open>line\<close>, with
  \<open>cond_text\<close> the stringized condition. Its first branch names \<open>cassert(cond_)\<close>,
  read here as the standard assertion. The hook receives the condition as an \<open>int\<close>.
\<close>

definition cpp_buffer_assert :: "config \<Rightarrow> string \<Rightarrow> c_int \<Rightarrow> bool \<Rightarrow> string \<Rightarrow> unit result" where
  "cpp_buffer_assert cfg file line cond cond_text =
     (if CPPBUFFER_USES_ASSERT cfg \<and> CPPBUFFER_ASSERT_USES_CASSERT cfg then assert cfg cond
      else if CPPBUFFER_USES_ASSERT cfg then
        (if \<not> cond then assert_hook file line (if cond then 1 else 0) cond_text else Inr ())
      else Inr ())"

section \<open>Ownership handles and the element store\<close>

text \<open>
  The handle type \<open>ptr_t\<close> defaults to \<open>std::shared_ptr<T>\<close>: a stored pointer and the
  control block it shares ownership through. Copying a handle copies both; the buffer
  does no bookkeeping of its own and only ever calls \<open>get()\<close>.
\<close>

record shared_ptr =
  get :: raw_ptr
  owner :: "nat option"

definition null_handle :: shared_ptr where
  "null_handle = \<lparr>get = nullptr, owner = None\<rparr>"

text \<open>
  The store holds the live elements by address. A reference \<open>T&\<close> is the address of
  its element; reading or writing through a reference to no live element has no
  defined result.
\<close>

record 'a heap =
  cells :: "raw_ptr \<Rightarrow> 'a option"
  brk :: raw_ptr
  capacity :: raw_ptr
  next_owner :: nat

definition load :: "'a heap \<Rightarrow> raw_ptr \<Rightarrow> 'a option" where
  "load h r = cells h r"

definition store :: "'a heap \<Rightarrow> raw_ptr \<Rightarrow> 'a \<Rightarrow> 'a heap option" where
  "store h r v = (if cells h r = None then None else Some (h\<lparr>cells := (cells h)(r \<mapsto> v)\<rparr>))"

section \<open>Buffer, the stride-1 specialization\<close>

record Buffer =
  mMemory :: shared_ptr
  mSize :: size_t

text \<open>\<open>Buffer() = default\<close> with the member initializers \<open>nullptr\<close> and \<open>0ul\<close>.\<close>

definition Buffer_default :: Buffer where
  "Buffer_default = \<lparr>mMemory = null_handle, mSize = 0\<rparr>"

text \<open>The defaulted copy constructor and copy assignment copy member by member.\<close>

definition Buffer_copy :: "Buffer \<Rightarrow> Buffer" where
  "Buffer_copy other = \<lparr>mMemory = mMemory other, mSize = mSize other\<rparr>"

definition operator_assign :: "Buffer \<Rightarrow> Buffer \<Rightarrow> Buffer" where
  "operator_assign this other = this\<lparr>mMemory := mMemory other, mSize := mSize other\<rparr>"

text \<open>
  \<open>Buffer(const ptr_t &, size_t)\<close> and \<open>Buffer(ptr_t &&, size_t)\<close>. Neither touches the
  store. The second also returns the moved-from handle, which is left empty.
\<close>

definition Buffer_from_handle :: "shared_ptr \<Rightarrow> size_t \<Rightarrow> 's \<Rightarrow> Buffer \<times> 's" where
  "Buffer_from_handle p s st = (\<lparr>mMemory = p, mSize = s\<rparr>, st)"

definition Buffer_from_rvalue :: "shared_ptr \<Rightarrow> size_t \<Rightarrow> 's \<Rightarrow> (Buffer \<times> shared_ptr) \<times> 's" where
  "Buffer_from_rvalue other s st = ((\<lparr>mMemory = other, mSize = s\<rparr>, null_handle), st)"

text \<open>
  \<open>Buffer(size_t, allocator_t &)\<close>: the allocator is a template parameter, here the
  function \<open>allocate\<close> on a state that covers the allocator and the store.
\<close>

definition Buffer_with_allocator ::
  "(size_t \<Rightarrow> 's \<Rightarrow> (shared_ptr \<times> 's) result) \<Rightarrow> size_t \<Rightarrow> 's \<Rightarrow> (Buffer \<times> 's) result" where
  "Buffer_with_allocator allocate n st =
     (case allocate n st of
        Inl f \<Rightarrow> Inl f
      | Inr (p, st') \<Rightarrow> Inr (\<lparr>mMemory = p, mSize = n\<rparr>, st'))"

text \<open>
  \<open>Buffer(size_t)\<close>: \<open>new T[n]\<close>, then the \<open>std::shared_ptr\<close> constructor with the
  \<open>delete[]\<close> deleter. Both belong to the C++ runtime and are parameters.
\<close>

definition Buffer_new ::
  "(size_t \<Rightarrow> 's \<Rightarrow> (raw_ptr \<times> 's) result) \<Rightarrow> (raw_ptr \<Rightarrow> 's \<Rightarrow> (shared_ptr \<times> 's) result)
     \<Rightarrow> size_t \<Rightarrow> 's \<Rightarrow> (Buffer \<times> 's) result" where
  "Buffer_new new_array make_shared n st =
     (case new_array n st of
        Inl f \<Rightarrow> Inl f
      | Inr (p, st1) \<Rightarrow>
          (case make_shared p st1 of
             Inl f \<Rightarrow> Inl f
           | Inr (sp, st2) \<Rightarrow> Inr (\<lparr>mMemory = sp, mSize = n\<rparr>, st2)))"

text \<open>The condition of both accessors: \<open>i >= 0 && static_cast<size_t>(i) < mSize\<close>.\<close>

definition in_bounds :: "c_int \<Rightarrow> size_t \<Rightarrow> bool" where
  "in_bounds i sz = (0 \<le> sint i \<and> (word_of_int (sint i) :: size_t) < sz)"

text \<open>
  \<open>operator[](int)\<close>, mutable and const: the standard \<open>assert\<close>, then
  \<open>mMemory.get()[i]\<close>. The result is the reference, the address of the element.
\<close>

definition operator_index :: "config \<Rightarrow> Buffer \<Rightarrow> c_int \<Rightarrow> raw_ptr result" where
  "operator_index cfg b i =
     (case assert cfg (in_bounds i (mSize b)) of
        Inl f \<Rightarrow> Inl f
      | Inr _ \<Rightarrow> Inr (get (mMemory b) + sint i))"

definition operator_index_const :: "config \<Rightarrow> Buffer \<Rightarrow> c_int \<Rightarrow> raw_ptr result" where
  "operator_index_const cfg b i =
     (case assert cfg (in_bounds i (mSize b)) of
        Inl f \<Rightarrow> Inl f
      | Inr _ \<Rightarrow> Inr (get (mMemory b) + sint i))"

definition begin_Buffer :: "Buffer \<Rightarrow> raw_ptr" where
  "begin_Buffer b = get (mMemory b)"

text \<open>
  \<open>end()\<close> is \<open>mMemory.get() + mSize\<close>, pointer arithmetic of the machine: the byte
  address of \<open>mMemory.get()\<close> advanced by \<open>mSize * sizeof(T)\<close> bytes, modulo \<open>2^64\<close>.
\<close>

definition end_Buffer :: "size_t \<Rightarrow> Buffer \<Rightarrow> address" where
  "end_Buffer sizeof_T b = machine_ptr sizeof_T (get (mMemory b)) + mSize b * sizeof_T"

definition begin_const :: "Buffer \<Rightarrow> raw_ptr" where
  "begin_const b = get (mMemory b)"

definition end_const :: "size_t \<Rightarrow> Buffer \<Rightarrow> address" where
  "end_const sizeof_T b = machine_ptr sizeof_T (get (mMemory b)) + mSize b * sizeof_T"

definition size_Buffer :: "Buffer \<Rightarrow> size_t" where
  "size_Buffer b = mSize b"

text \<open>\<open>size_of(buffer)\<close>; \<open>sizeof_T\<close> stands for \<open>sizeof(T)\<close>.\<close>

definition size_of :: "size_t \<Rightarrow> Buffer \<Rightarrow> size_t" where
  "size_of sizeof_T buffer = size_Buffer buffer * sizeof_T"

text \<open>
  The traversal that \<open>begin()\<close> and \<open>end()\<close> are made for, as \<open>std::accumulate\<close>
  runs it: \<open>for (; it != stop; ++it)\<close>, collecting the cursors it visits. The
  cursors are pointers of the machine: \<open>++it\<close> advances the byte address by
  \<open>sizeof(T)\<close> and \<open>it != stop\<close> compares byte addresses. A traversal that never
  meets \<open>stop\<close> does not return.
\<close>

partial_function (option) traverse :: "size_t \<Rightarrow> address \<Rightarrow> address \<Rightarrow> address list option" where
  "traverse sizeof_T it stop =
     (if it = stop then Some []
      else Option.bind (traverse sizeof_T (it + sizeof_T) stop) (\<lambda>rest. Some (it # rest)))"

text \<open>A buffer is backed in a store when each of its \<open>size()\<close> elements is live.\<close>

definition backed :: "'a heap \<Rightarrow> Buffer \<Rightarrow> bool" where
  "backed h b = (\<forall>k \<in> {0..<unat (mSize b)}. cells h (get (mMemory b) + int k) \<noteq> None)"

section \<open>Slices\<close>

text \<open>
  Modelled from the spec: the class \<open>Slice\<close> is declared in the source and built by
  \<open>Buffer::slice\<close>, but its definition is missing. Its attributes are the parent's
  handle, \<open>origin_offset\<close>, \<open>extent\<close> (the number of visible elements) and \<open>stride\<close>.
\<close>

record Slice =
  sMemory :: shared_ptr
  origin_offset :: size_t
  extent :: size_t
  stride :: uint8_t

text \<open>
  Modelled from the spec: the missing constructor \<open>Slice(memory, size, begin, end, s)\<close>.
  The slice covers the half-open range \<open>[begin, end)\<close> of its parent's indexing and its
  \<open>size()\<close> is \<open>end - begin\<close>; the range is not validated when the slice is made.
\<close>

definition Slice_ctor :: "shared_ptr \<Rightarrow> size_t \<Rightarrow> size_t \<Rightarrow> size_t \<Rightarrow> uint8_t \<Rightarrow> Slice" where
  "Slice_ctor memory parent_size begin_index end_index s =
     \<lparr>sMemory = memory, origin_offset = begin_index, extent = end_index - begin_index, stride = s\<rparr>"

text \<open>Modelled from the spec: the missing \<open>Slice::size()\<close>, the visible element count.\<close>

definition size_Slice :: "Slice \<Rightarrow> size_t" where
  "size_Slice sl = extent sl"

text \<open>
  Modelled from the spec: the missing \<open>Slice::operator[]\<close>. It validates
  \<open>0 <= index < size\<close> through the bounds-check strategy, expanded at \<open>file\<close>, \<open>line\<close>,
  and translates the index as \<open>origin_offset + index * stride\<close>.
\<close>

definition operator_index_Slice :: "config \<Rightarrow> string \<Rightarrow> c_int \<Rightarrow> Slice \<Rightarrow> c_int \<Rightarrow> raw_ptr result" where
  "operator_index_Slice cfg file line sl k =
     (case cpp_buffer_assert cfg file line (in_bounds k (extent sl))
             ''index >= 0 && static_cast<size_t>(index) < size'' of
        Inl f \<Rightarrow> Inl f
      | Inr _ \<Rightarrow> Inr (get (sMemory sl) + (uint (origin_offset sl) + sint k * uint (stride sl))))"

text \<open>\<open>Buffer::slice<s>(begin, end)\<close>, as the source has it.\<close>

definition slice :: "uint8_t \<Rightarrow> Buffer \<Rightarrow> size_t \<Rightarrow> size_t \<Rightarrow> Slice" where
  "slice s b begin_index end_index = Slice_ctor (mMemory b) (mSize b) begin_index end_index s"

section \<open>A small runtime to construct buffers on\<close>

text \<open>
  A bump allocator over a bounded store, for running the constructors: \<open>bump_new\<close>
  plays \<open>new T[n]\<close> and fails with \<open>std::bad_alloc\<close> beyond the capacity,
  \<open>bump_shared\<close> plays the \<open>std::shared_ptr\<close> constructor, and \<open>bump_allocate\<close> is
  an allocator whose \<open>allocate\<close> returns a shared handle.
\<close>

definition empty_heap :: "raw_ptr \<Rightarrow> 'a heap" where
  "empty_heap cap = \<lparr>cells = (\<lambda>_. None), brk = 1, capacity = cap, next_owner = 0\<rparr>"

definition bump_new :: "'a \<Rightarrow> size_t \<Rightarrow> 'a heap \<Rightarrow> (raw_ptr \<times> 'a heap) result" where
  "bump_new init n h =
     (if capacity h < brk h + uint n then Inl (Throw BadAlloc)
      else Inr (brk h,
                h\<lparr>cells := (\<lambda>a. if brk h \<le> a \<and> a < brk h + uint n then Some init else cells h a),
                  brk := brk h + uint n\<rparr>))"

definition bump_shared :: "raw_ptr \<Rightarrow> 'a heap \<Rightarrow> (shared_ptr \<times> 'a heap) result" where
  "bump_shared p h = Inr (\<lparr>get = p, owner = Some (next_owner h)\<rparr>, h\<lparr>next_owner := Suc (next_owner h)\<rparr>)"

definition bump_allocate :: "'a \<Rightarrow> size_t \<Rightarrow> 'a heap \<Rightarrow> (shared_ptr \<times> 'a heap) result" where
  "bump_allocate init n h =
     (case bump_new init n h of
        Inl f \<Rightarrow> Inl f
      | Inr (p, h1) \<Rightarrow> bump_shared p h1)"

text \<open>Whether an outcome is a raised out-of-range error.\<close>

fun raises_out_of_range :: "'a result \<Rightarrow> bool" where
  "raises_out_of_range (Inl (Throw (OutOfRangeError m))) = True"
| "raises_out_of_range r = False"

text \<open>
  Using a reference that an accessor returned: \<open>view[i] = v\<close> writes through it and
  \<open>view[i]\<close> as a value reads through it. Nothing is written or read when the
  accessor did not return.
\<close>

definition assign_at :: "'a heap \<Rightarrow> raw_ptr result \<Rightarrow> 'a \<Rightarrow> 'a heap option" where
  "assign_at h ref v = (case ref of Inl f \<Rightarrow> None | Inr r \<Rightarrow> store h r v)"

definition read_at :: "'a heap \<Rightarrow> raw_ptr result \<Rightarrow> 'a option" where
  "read_at h ref = (case ref of Inl f \<Rightarrow> None | Inr r \<Rightarrow> load h r)"

section \<open>Properties of the assertion hook\<close>

lemma try_catch_all_Throw [simp]: "try_catch_all (Inl (Throw e)) handler = handler e"
  by (simp add: try_catch_all_def)

text \<open>
  C1 (the property fails on the code). The hook should raise the formatted diagnostic
  and fall back to the fixed string only when formatting fails. The formatted error is
  thrown inside the \<open>try\<close> block whose \<open>catch(...)\<close> handles every exception, so the
  handler replaces it: called for the failed condition of \<open>buffer[10]\<close>, the hook
  formats the message without failure and still raises the fixed fallback string.
\<close>

theorem assert_hook_raises_fallback:
  "snprintf 1024 (formatString ''buffer.h'' 147 0 ''i >= 0 && static_cast<size_t>(i) < mSize'')
     = ''buffer.h:147 buffer assert condition failed. Got 0 from '' @ [CHR 0x22]
         @ ''i >= 0 && static_cast<size_t>(i) < mSize'' @ [CHR 0x22]
   \<and> assert_hook ''buffer.h'' 147 0 ''i >= 0 && static_cast<size_t>(i) < mSize''
     = Inl (Throw (OutOfRangeError ''Buffer access out of bounds''))"
  by (simp add: assert_hook_def snprintf_def formatString_def show_int_def show_nat.simps
      OUT_OF_RANGE_STRING_def)

text \<open>The same at every input: the formatted message never leaves the hook.\<close>

lemma assert_hook_always_fallback:
  "assert_hook file line condition conditionString =
     Inl (Throw (OutOfRangeError OUT_OF_RANGE_STRING))"
  by (simp add: assert_hook_def)

section \<open>The bounds condition and the accessors\<close>

text \<open>The cast to \<open>size_t\<close> is harmless once the index is known non-negative.\<close>

lemma in_bounds_iff: "in_bounds i sz \<longleftrightarrow> 0 \<le> sint i \<and> sint i < uint sz"
proof (cases "0 \<le> sint i")
  case False
  then show ?thesis by (simp add: in_bounds_def)
next
  case True
  have "sint i < 2 ^ 31" using sint_lt [of i] by simp
  then have "sint i < 2 ^ 64" by simp
  with True have "take_bit LENGTH(64) (sint i) = sint i"
    by (simp add: take_bit_int_eq_self)
  then have "uint (word_of_int (sint i) :: size_t) = sint i"
    by (simp only: uint_word_of_int_eq)
  with True show ?thesis by (simp add: in_bounds_def word_less_def)
qed

lemma assert_cases: "assert cfg c = (if NDEBUG cfg \<or> c then Inr () else Inl Abort)"
  by (simp add: assert_def)

lemma assert_True [simp]: "assert cfg True = Inr ()"
  by (simp add: assert_def)

lemma cpp_buffer_assert_True [simp]: "cpp_buffer_assert cfg file line True t = Inr ()"
  by (simp add: cpp_buffer_assert_def)

lemma operator_index_in_bounds:
  "in_bounds i (mSize b) \<Longrightarrow> operator_index cfg b i = Inr (get (mMemory b) + sint i)"
  by (simp add: operator_index_def)

lemma operator_index_const_in_bounds:
  "in_bounds i (mSize b) \<Longrightarrow> operator_index_const cfg b i = Inr (get (mMemory b) + sint i)"
  by (simp add: operator_index_const_def)

lemma operator_index_Slice_in_bounds:
  "in_bounds k (extent sl) \<Longrightarrow>
   operator_index_Slice cfg file line sl k
     = Inr (get (sMemory sl) + (uint (origin_offset sl) + sint k * uint (stride sl)))"
  by (simp add: operator_index_Slice_def)

text \<open>
  C2 (as stated, false on the code). The claim has \<open>operator[]\<close> check through the
  selected bounds-check strategy, so that index \<open>n\<close> on a size-\<open>n\<close> buffer raises an
  out-of-range error under the exception-raising strategy. Both accessors call the
  standard \<open>assert\<close> and never \<open>cpp_buffer_assert\<close>: with the exception-raising
  strategy selected, \<open>buffer[10]\<close> on a size-10 buffer aborts when \<open>assert\<close> is active
  and returns the unchecked reference under \<open>NDEBUG\<close>; no error is raised either way.
\<close>

theorem operator_index_exception_strategy_counterexample:
  "operator_index \<lparr>CPPBUFFER_USES_ASSERT = True, CPPBUFFER_ASSERT_USES_CASSERT = False,
       CPPBUFFER_ASSERT_USES_EXCEPTIONS = True, NDEBUG = False\<rparr>
     \<lparr>mMemory = \<lparr>get = 4096, owner = Some 0\<rparr>, mSize = 10\<rparr> 10 = Inl Abort
   \<and> operator_index \<lparr>CPPBUFFER_USES_ASSERT = True, CPPBUFFER_ASSERT_USES_CASSERT = False,
       CPPBUFFER_ASSERT_USES_EXCEPTIONS = True, NDEBUG = True\<rparr>
     \<lparr>mMemory = \<lparr>get = 4096, owner = Some 0\<rparr>, mSize = 10\<rparr> 10 = Inr 4106"
  by (simp add: operator_index_def assert_def in_bounds_def)

text \<open>
  C2 (amended). \<open>operator[]\<close>, mutable and const, validates \<open>0 <= index < size\<close> with
  the standard \<open>assert\<close>, whatever the \<open>CPPBUFFER_*\<close> flags select: at index \<open>-1\<close> or
  \<open>n\<close> on a size-\<open>n\<close> buffer it aborts when \<open>assert\<close> is active, performs no validation
  and returns the reference \<open>mMemory.get() + index\<close> under \<open>NDEBUG\<close>, and in no
  configuration raises an out-of-range error.
\<close>

theorem operator_index_standard_assert:
  assumes "sint i = - 1 \<or> sint i = uint (mSize b)"
  shows "operator_index cfg b i = (if NDEBUG cfg then Inr (get (mMemory b) + sint i) else Inl Abort)
       \<and> operator_index_const cfg b i
           = (if NDEBUG cfg then Inr (get (mMemory b) + sint i) else Inl Abort)
       \<and> \<not> raises_out_of_range (operator_index cfg b i)
       \<and> \<not> raises_out_of_range (operator_index_const cfg b i)"
proof -
  from assms have "\<not> in_bounds i (mSize b)" by (auto simp: in_bounds_iff)
  then show ?thesis
    by (simp add: operator_index_def operator_index_const_def assert_cases)
qed

theorem operator_index_standard_assert_witness:
  "operator_index \<lparr>CPPBUFFER_USES_ASSERT = True, CPPBUFFER_ASSERT_USES_CASSERT = False,
       CPPBUFFER_ASSERT_USES_EXCEPTIONS = True, NDEBUG = False\<rparr>
     \<lparr>mMemory = \<lparr>get = 4096, owner = Some 0\<rparr>, mSize = 10\<rparr> (- 1) = Inl Abort
   \<and> operator_index_const \<lparr>CPPBUFFER_USES_ASSERT = False, CPPBUFFER_ASSERT_USES_CASSERT = False,
       CPPBUFFER_ASSERT_USES_EXCEPTIONS = False, NDEBUG = True\<rparr>
     \<lparr>mMemory = \<lparr>get = 4096, owner = Some 0\<rparr>, mSize = 10\<rparr> 10 = Inr 4106"
  using operator_index_standard_assert [of "- 1" "\<lparr>mMemory = \<lparr>get = 4096, owner = Some 0\<rparr>, mSize = 10\<rparr>"
     "\<lparr>CPPBUFFER_USES_ASSERT = True, CPPBUFFER_ASSERT_USES_CASSERT = False,
       CPPBUFFER_ASSERT_USES_EXCEPTIONS = True, NDEBUG = False\<rparr>"]
    operator_index_standard_assert [of 10 "\<lparr>mMemory = \<lparr>get = 4096, owner = Some 0\<rparr>, mSize = 10\<rparr>"
     "\<lparr>CPPBUFFER_USES_ASSERT = False, CPPBUFFER_ASSERT_USES_CASSERT = False,
       CPPBUFFER_ASSERT_USES_EXCEPTIONS = False, NDEBUG = True\<rparr>"]
  by simp

section \<open>Construction and size\<close>

text \<open>In \<open>size_t\<close> arithmetic the byte count is the product modulo \<open>2^64\<close>.\<close>

lemma size_of_unat: "unat (size_of sizeof_T b) = unat (mSize b) * unat sizeof_T mod 2 ^ 64"
  by (simp add: size_of_def size_Buffer_def unat_word_ariths)

text \<open>
  C3. A buffer constructed with size \<open>n\<close>, by each of the four constructors that take
  a size, reports \<open>size() = n\<close>, and \<open>size_of\<close> of it is \<open>n * sizeof(T)\<close>, the product
  taken in \<open>size_t\<close> as the source computes it. The two allocating constructors may
  fail instead of constructing a buffer; the statement is about the buffer they return.
\<close>

theorem constructed_size:
  "size_Buffer (fst (Buffer_from_handle p n st)) = n
   \<and> size_of sizeof_T (fst (Buffer_from_handle p n st)) = n * sizeof_T
   \<and> size_Buffer (fst (fst (Buffer_from_rvalue p n st))) = n
   \<and> size_of sizeof_T (fst (fst (Buffer_from_rvalue p n st))) = n * sizeof_T
   \<and> (Buffer_with_allocator allocate n sa = Inr (ba, sa')
        \<longrightarrow> size_Buffer ba = n \<and> size_of sizeof_T ba = n * sizeof_T)
   \<and> (Buffer_new new_array make_shared n sn = Inr (bn, sn')
        \<longrightarrow> size_Buffer bn = n \<and> size_of sizeof_T bn = n * sizeof_T)"
  by (auto simp: Buffer_from_handle_def Buffer_from_rvalue_def Buffer_with_allocator_def
      Buffer_new_def size_Buffer_def size_of_def split: sum.splits prod.splits)

theorem constructed_size_witness:
  "(case Buffer_with_allocator (bump_allocate (0::int)) 10 (empty_heap 64) of
      Inl f \<Rightarrow> False
    | Inr (b, h) \<Rightarrow> size_Buffer b = 10 \<and> size_of 4 b = 40)
   \<and> (case Buffer_new (bump_new (0::int)) bump_shared 10 (empty_heap 64) of
      Inl f \<Rightarrow> False
    | Inr (b, h) \<Rightarrow> size_Buffer b = 10 \<and> size_of 4 b = 40)"
proof -
  obtain ba ha
    where a: "Buffer_with_allocator (bump_allocate (0::int)) 10 (empty_heap 64) = Inr (ba, ha)"
    by (simp add: Buffer_with_allocator_def bump_allocate_def bump_new_def bump_shared_def
        empty_heap_def)
  obtain bn hn
    where n: "Buffer_new (bump_new (0::int)) bump_shared 10 (empty_heap 64) = Inr (bn, hn)"
    by (simp add: Buffer_new_def bump_new_def bump_shared_def empty_heap_def)
  from a n constructed_size [of null_handle 10 "()" 4 "bump_allocate (0::int)" "empty_heap 64"
      ba ha "bump_new (0::int)" bump_shared "empty_heap 64" bn hn]
  show ?thesis by simp
qed

text \<open>
  C7. \<open>Buffer(handle, size)\<close> and \<open>Buffer(handle_rvalue, size)\<close> store the handle they
  are given and leave the store and allocator state as they were; the size is stored
  unchecked, so \<open>size()\<close> returns the value passed in, whatever it is.
\<close>

theorem Buffer_wraps_handle:
  "mMemory (fst (Buffer_from_handle p s st)) = p
   \<and> size_Buffer (fst (Buffer_from_handle p s st)) = s
   \<and> snd (Buffer_from_handle p s st) = st
   \<and> mMemory (fst (fst (Buffer_from_rvalue p s st))) = p
   \<and> size_Buffer (fst (fst (Buffer_from_rvalue p s st))) = s
   \<and> snd (Buffer_from_rvalue p s st) = st"
  by (simp add: Buffer_from_handle_def Buffer_from_rvalue_def size_Buffer_def)

text \<open>
  C8. \<open>Buffer(size, allocator)\<close> calls \<open>allocator.allocate(size)\<close>: a failure of the
  allocator is the failure of the constructor, unchanged; the handle it returns is
  stored with the size, in the state the allocator left.
\<close>

theorem Buffer_with_allocator_propagates:
  "(allocate n st = Inl f \<longrightarrow> Buffer_with_allocator allocate n st = Inl f)
   \<and> (allocate n st = Inr (p, st')
        \<longrightarrow> Buffer_with_allocator allocate n st = Inr (\<lparr>mMemory = p, mSize = n\<rparr>, st'))"
  by (simp add: Buffer_with_allocator_def)

theorem Buffer_with_allocator_propagates_witness:
  "Buffer_with_allocator (bump_allocate (0::int)) 100 (empty_heap 64) = Inl (Throw BadAlloc)
   \<and> (case Buffer_with_allocator (bump_allocate (0::int)) 10 (empty_heap 64) of
        Inl f \<Rightarrow> False
      | Inr (b, h) \<Rightarrow> b = \<lparr>mMemory = \<lparr>get = 1, owner = Some 0\<rparr>, mSize = 10\<rparr> \<and> brk h = 11)"
proof -
  have fail: "bump_allocate (0::int) 100 (empty_heap 64) = Inl (Throw BadAlloc)"
    by (simp add: bump_allocate_def bump_new_def empty_heap_def)
  obtain h
    where ok: "bump_allocate (0::int) 10 (empty_heap 64) = Inr (\<lparr>get = 1, owner = Some 0\<rparr>, h)"
      and h: "brk h = 11"
    by (simp add: bump_allocate_def bump_new_def bump_shared_def empty_heap_def)
  from fail
    Buffer_with_allocator_propagates [of "bump_allocate (0::int)" 100 "empty_heap 64" "Throw BadAlloc"]
  have 1: "Buffer_with_allocator (bump_allocate (0::int)) 100 (empty_heap 64) = Inl (Throw BadAlloc)"
    by simp
  from ok
    Buffer_with_allocator_propagates [of "bump_allocate (0::int)" 10 "empty_heap 64" _
      "\<lparr>get = 1, owner = Some 0\<rparr>" h]
  have 2: "Buffer_with_allocator (bump_allocate (0::int)) 10 (empty_heap 64)
             = Inr (\<lparr>mMemory = \<lparr>get = 1, owner = Some 0\<rparr>, mSize = 10\<rparr>, h)"
    by simp
  from 1 2 h show ?thesis by simp
qed

text \<open>
  C9. A default-constructed buffer has \<open>size() = 0\<close>, so \<open>size_of\<close> of it is 0, and
  a null handle; no index satisfies its bounds condition.
\<close>

theorem Buffer_default_empty:
  "size_Buffer Buffer_default = 0
   \<and> size_of sizeof_T Buffer_default = 0
   \<and> mMemory Buffer_default = null_handle
   \<and> get (mMemory Buffer_default) = nullptr
   \<and> \<not> in_bounds i (size_Buffer Buffer_default)"
  by (simp add: Buffer_default_def size_Buffer_def size_of_def null_handle_def in_bounds_def)

section \<open>Cursors\<close>

text \<open>As long as the byte offset does not wrap, \<open>n\<close> steps are \<open>n\<close> distinct cursors.\<close>

lemma unat_steps:
  assumes "0 < s" and "n * unat s < 2 ^ 64"
  shows "unat (of_nat n * s :: size_t) = n * unat s"
proof -
  from assms(1) have "1 \<le> unat s" by (simp add: word_less_nat_alt Suc_le_eq)
  then have "n \<le> n * unat s" by simp
  with assms(2) have "n < 2 ^ 64" by linarith
  then have "unat (of_nat n :: size_t) = n" by (simp add: unat_of_nat)
  with assms(2) show ?thesis by (simp add: unat_word_ariths)
qed

text \<open>A traversal over \<open>n\<close> such steps returns, having visited the \<open>n\<close> cursors in order.\<close>

lemma traverse_steps:
  assumes "0 < s" and "n * unat s < 2 ^ 64"
  shows "traverse s p (p + of_nat n * s) = Some (map (\<lambda>k. p + of_nat k * s) [0..<n])"
  using assms(2)
proof (induction n arbitrary: p)
  case 0
  show ?case by (subst traverse.simps) simp
next
  case (Suc n)
  from Suc.prems have n: "n * unat s < 2 ^ 64" by simp
  have "unat (of_nat (Suc n) * s) = Suc n * unat s"
    using assms(1) Suc.prems by (rule unat_steps)
  moreover from assms(1) have "0 < unat s" by (simp add: word_less_nat_alt)
  ultimately have "of_nat (Suc n) * s \<noteq> 0" by (metis mult_pos_pos unat_0 zero_less_Suc less_irrefl)
  then have ne: "p \<noteq> p + of_nat (Suc n) * s" by simp
  have e: "p + of_nat (Suc n) * s = p + s + of_nat n * s" by (simp add: algebra_simps)
  have l: "p # map (\<lambda>k. p + s + of_nat k * s) [0..<n] = map (\<lambda>k. p + of_nat k * s) [0..<Suc n]"
    by (simp add: upt_conv_Cons map_Suc_upt [symmetric] algebra_simps del: upt_Suc)
  from ne have "traverse s p (p + of_nat (Suc n) * s)
               = Option.bind (traverse s (p + s) (p + of_nat (Suc n) * s)) (\<lambda>rest. Some (p # rest))"
    by (intro trans [OF traverse.simps]) (simp only: if_False)
  also have "\<dots> = Option.bind (traverse s (p + s) (p + s + of_nat n * s)) (\<lambda>rest. Some (p # rest))"
    by (simp only: e)
  also have "\<dots> = Some (p # map (\<lambda>k. p + s + of_nat k * s) [0..<n])"
    by (simp only: Suc.IH [OF n] Option.bind.simps)
  finally show ?case by (simp only: l)
qed

lemma machine_ptr_plus: "machine_ptr s (p + int k) = machine_ptr s p + of_nat k * s"
  by (simp add: machine_ptr_def algebra_simps)

text \<open>
  C6 (as stated, false on the code). The claim has the traversal from \<open>begin()\<close> to
  \<open>end()\<close> visit exactly the \<open>size()\<close> elements of every stride-1 buffer. The size is
  stored as given, and \<open>end()\<close> is computed in the address arithmetic of the machine:
  for a \<open>Buffer<int>\<close> wrapped around a handle with size \<open>2^62\<close>, the byte offset
  \<open>2^62 * 4\<close> is 0 modulo \<open>2^64\<close>, so \<open>end()\<close> equals \<open>begin()\<close> and the traversal
  visits no element although \<open>size()\<close> is \<open>2^62\<close>.
\<close>

theorem begin_end_wrap_counterexample:
  "size_Buffer \<lparr>mMemory = \<lparr>get = 4096, owner = Some 0\<rparr>, mSize = 4611686018427387904\<rparr>
     = 4611686018427387904
   \<and> end_Buffer 4 \<lparr>mMemory = \<lparr>get = 4096, owner = Some 0\<rparr>, mSize = 4611686018427387904\<rparr>
     = machine_ptr 4
         (begin_Buffer \<lparr>mMemory = \<lparr>get = 4096, owner = Some 0\<rparr>, mSize = 4611686018427387904\<rparr>)
   \<and> traverse 4
        (machine_ptr 4
           (begin_Buffer \<lparr>mMemory = \<lparr>get = 4096, owner = Some 0\<rparr>, mSize = 4611686018427387904\<rparr>))
        (end_Buffer 4 \<lparr>mMemory = \<lparr>get = 4096, owner = Some 0\<rparr>, mSize = 4611686018427387904\<rparr>)
     = Some []"
proof -
  let ?b = "\<lparr>mMemory = \<lparr>get = 4096, owner = Some 0\<rparr>, mSize = 4611686018427387904\<rparr>"
  have e: "end_Buffer 4 ?b = machine_ptr 4 (begin_Buffer ?b)"
    by (simp add: end_Buffer_def begin_Buffer_def machine_ptr_def)
  have "traverse 4 (machine_ptr 4 (begin_Buffer ?b)) (machine_ptr 4 (begin_Buffer ?b)) = Some []"
    by (subst traverse.simps) simp
  with e show ?thesis by (simp add: size_Buffer_def)
qed

text \<open>
  C6 (amended). For every stride-1 buffer whose extent in bytes, \<open>size() * sizeof(T)\<close>,
  does not wrap around the 64-bit address space, \<open>begin()\<close> and \<open>end()\<close>, mutable and
  const, are the raw cursors \<open>memory\<close> and \<open>memory + size\<close>: \<open>end()\<close> is \<open>begin()\<close>
  advanced by \<open>size()\<close> elements, and the traversal from \<open>begin()\<close> to \<open>end()\<close>
  returns after visiting exactly the \<open>size()\<close> elements in index order, the cursor of
  index \<open>k\<close> being the pointer to the element \<open>memory + k\<close> that \<open>operator[]\<close> refers to.
\<close>

theorem begin_end_span:
  assumes "0 < sizeof_T" and "unat (size_Buffer b) * unat sizeof_T < 2 ^ 64"
  shows "begin_Buffer b = get (mMemory b)
   \<and> end_Buffer sizeof_T b = machine_ptr sizeof_T (begin_Buffer b) + size_Buffer b * sizeof_T
   \<and> begin_const b = get (mMemory b)
   \<and> end_const sizeof_T b = machine_ptr sizeof_T (begin_const b) + size_Buffer b * sizeof_T
   \<and> traverse sizeof_T (machine_ptr sizeof_T (begin_Buffer b)) (end_Buffer sizeof_T b)
       = Some (map (\<lambda>k. machine_ptr sizeof_T (get (mMemory b) + int k)) [0..<unat (size_Buffer b)])
   \<and> traverse sizeof_T (machine_ptr sizeof_T (begin_const b)) (end_const sizeof_T b)
       = Some (map (\<lambda>k. machine_ptr sizeof_T (get (mMemory b) + int k)) [0..<unat (size_Buffer b)])"
proof -
  let ?p = "machine_ptr sizeof_T (get (mMemory b))"
  from assms(2) have n: "unat (mSize b) * unat sizeof_T < 2 ^ 64" by (simp add: size_Buffer_def)
  have "traverse sizeof_T ?p (?p + of_nat (unat (mSize b)) * sizeof_T)
          = Some (map (\<lambda>k. ?p + of_nat k * sizeof_T) [0..<unat (mSize b)])"
    using assms(1) n by (rule traverse_steps)
  then have "traverse sizeof_T ?p (?p + mSize b * sizeof_T)
          = Some (map (\<lambda>k. machine_ptr sizeof_T (get (mMemory b) + int k)) [0..<unat (mSize b)])"
    by (simp add: machine_ptr_plus)
  then show ?thesis
    by (simp add: begin_Buffer_def end_Buffer_def begin_const_def end_const_def size_Buffer_def)
qed

theorem begin_end_span_witness:
  "traverse 4 (machine_ptr 4 (begin_Buffer \<lparr>mMemory = \<lparr>get = 1, owner = Some 0\<rparr>, mSize = 3\<rparr>))
      (end_Buffer 4 \<lparr>mMemory = \<lparr>get = 1, owner = Some 0\<rparr>, mSize = 3\<rparr>)
     = Some [4, 8, 12]
   \<and> end_Buffer 4 \<lparr>mMemory = \<lparr>get = 1, owner = Some 0\<rparr>, mSize = 3\<rparr> = 16"
proof -
  let ?b = "\<lparr>mMemory = \<lparr>get = 1, owner = Some 0\<rparr>, mSize = 3\<rparr>"
  have s: "(0::size_t) < 4" by simp
  have n: "unat (size_Buffer ?b) * unat (4::size_t) < 2 ^ 64" by (simp add: size_Buffer_def)
  have u: "unat (size_Buffer ?b) = 3" by (simp add: size_Buffer_def)
  have l: "[0..<3] = [0, 1, 2::nat]" by (simp add: upt_rec)
  from begin_end_span [OF s n]
  have "traverse 4 (machine_ptr 4 (begin_Buffer ?b)) (end_Buffer 4 ?b)
          = Some (map (\<lambda>k. machine_ptr 4 (get (mMemory ?b) + int k)) [0..<unat (size_Buffer ?b)])"
    by blast
  then show ?thesis
    unfolding u l by (simp add: machine_ptr_def end_Buffer_def)
qed

section \<open>Views that share memory\<close>

text \<open>Each valid index of a backed buffer resolves to a live element.\<close>

lemma backed_cell:
  assumes "backed h b" and "in_bounds i (mSize b)"
  shows "cells h (get (mMemory b) + sint i) \<noteq> None"
proof -
  from assms(2) have i: "0 \<le> sint i" "sint i < uint (mSize b)"
    unfolding in_bounds_iff by blast+
  then have "nat (sint i) < unat (mSize b)"
    unfolding unat_eq_nat_uint by linarith
  then have "nat (sint i) \<in> {0..<unat (mSize b)}" by simp
  with assms(1) have "cells h (get (mMemory b) + int (nat (sint i))) \<noteq> None"
    unfolding backed_def by blast
  with i show ?thesis by simp
qed

lemma assign_then_read:
  assumes "cells h r \<noteq> None"
  shows "\<exists>h'. assign_at h (Inr r) v = Some h' \<and> read_at h' (Inr r) = Some v"
  using assms by (simp add: assign_at_def read_at_def store_def load_def)

lemma slice_fields:
  "sMemory (slice S b bg en) = mMemory b" "origin_offset (slice S b bg en) = bg"
  "extent (slice S b bg en) = en - bg" "stride (slice S b bg en) = S"
  by (simp_all add: slice_def Slice_ctor_def)

lemma Buffer_copy_eq: "Buffer_copy b = b"
  by (simp add: Buffer_copy_def)

lemma operator_assign_eq: "operator_assign t b = b"
  by (cases t, cases b) (simp add: operator_assign_def)

lemma write_then_read_index:
  assumes "in_bounds i (mSize b)" and "backed h b"
  shows "\<exists>h'. assign_at h (operator_index cfg b i) v = Some h'
            \<and> read_at h' (operator_index_const cfg b i) = Some v"
  using assign_then_read [OF backed_cell [OF assms(2) assms(1)], of v] assms(1)
  by (simp add: operator_index_in_bounds operator_index_const_in_bounds)

text \<open>
  C4 (against the slice modelled from the spec). For a buffer of size \<open>n\<close> and
  \<open>0 <= b <= e <= n\<close>, the slice \<open>buffer.slice<S>(b, e)\<close> has \<open>size() = e - b\<close>, and
  for every index \<open>k\<close> in its range with \<open>b + k*S < n\<close>, \<open>slice[k]\<close> and
  \<open>buffer[b + k*S]\<close> return the same reference. Both accessors take an \<open>int\<close>: \<open>i\<close>
  is the \<open>int\<close> whose value is \<open>b + k*S\<close>.
\<close>

theorem slice_size_and_alias:
  assumes "bg \<le> en" and "en \<le> mSize b"
  shows "size_Slice (slice S b bg en) = en - bg
       \<and> uint (size_Slice (slice S b bg en)) = uint en - uint bg
       \<and> (\<forall>k i. in_bounds k (size_Slice (slice S b bg en))
                \<and> sint i = uint bg + sint k * uint S \<and> sint i < uint (mSize b)
            \<longrightarrow> operator_index_Slice cfg file line (slice S b bg en) k
                  = Inr (get (mMemory b) + sint i)
              \<and> operator_index cfg b i = Inr (get (mMemory b) + sint i)
              \<and> operator_index_const cfg b i = Inr (get (mMemory b) + sint i))"
proof (intro conjI allI impI)
  show "size_Slice (slice S b bg en) = en - bg"
    by (simp add: size_Slice_def slice_fields)
  from assms(1) show "uint (size_Slice (slice S b bg en)) = uint en - uint bg"
    by (simp add: size_Slice_def slice_fields uint_minus_simple_alt)
next
  fix k i :: c_int
  assume h: "in_bounds k (size_Slice (slice S b bg en))
                \<and> sint i = uint bg + sint k * uint S \<and> sint i < uint (mSize b)"
  then have k: "in_bounds k (extent (slice S b bg en))" by (simp add: size_Slice_def)
  from h have "0 \<le> sint k" by (simp add: in_bounds_iff)
  then have "0 \<le> uint bg + sint k * uint S" by simp
  with h have i: "in_bounds i (mSize b)" by (simp add: in_bounds_iff)
  from h show "operator_index_Slice cfg file line (slice S b bg en) k = Inr (get (mMemory b) + sint i)"
    using operator_index_Slice_in_bounds [OF k] by (simp add: slice_fields)
  from i show "operator_index cfg b i = Inr (get (mMemory b) + sint i)"
    by (rule operator_index_in_bounds)
  from i show "operator_index_const cfg b i = Inr (get (mMemory b) + sint i)"
    by (rule operator_index_const_in_bounds)
qed

theorem slice_size_and_alias_witness:
  "size_Slice (slice 2 \<lparr>mMemory = \<lparr>get = 1, owner = Some 0\<rparr>, mSize = 10\<rparr> 0 10) = 10
   \<and> operator_index_Slice
        \<lparr>CPPBUFFER_USES_ASSERT = True, CPPBUFFER_ASSERT_USES_CASSERT = False,
         CPPBUFFER_ASSERT_USES_EXCEPTIONS = True, NDEBUG = False\<rparr> ''buffer.h'' 0
        (slice 2 \<lparr>mMemory = \<lparr>get = 1, owner = Some 0\<rparr>, mSize = 10\<rparr> 0 10) 1 = Inr 3
   \<and> operator_index
        \<lparr>CPPBUFFER_USES_ASSERT = True, CPPBUFFER_ASSERT_USES_CASSERT = False,
         CPPBUFFER_ASSERT_USES_EXCEPTIONS = True, NDEBUG = False\<rparr>
        \<lparr>mMemory = \<lparr>get = 1, owner = Some 0\<rparr>, mSize = 10\<rparr> 2 = Inr 3"
proof -
  let ?b = "\<lparr>mMemory = \<lparr>get = 1, owner = Some 0\<rparr>, mSize = 10\<rparr>"
  let ?cfg = "\<lparr>CPPBUFFER_USES_ASSERT = True, CPPBUFFER_ASSERT_USES_CASSERT = False,
         CPPBUFFER_ASSERT_USES_EXCEPTIONS = True, NDEBUG = False\<rparr>"
  have r: "(0::size_t) \<le> 10" "(10::size_t) \<le> mSize ?b" by simp_all
  have k: "in_bounds 1 (size_Slice (slice 2 ?b 0 10))"
    by (simp add: in_bounds_def size_Slice_def slice_def Slice_ctor_def)
  have i: "sint (2::c_int) = uint (0::size_t) + sint (1::c_int) * uint (2::uint8_t)"
     "sint (2::c_int) < uint (mSize ?b)"
    by simp_all
  note t = slice_size_and_alias [OF r, of 2 ?cfg "''buffer.h''" 0]
  from t have 1: "size_Slice (slice 2 ?b 0 10) = 10" by simp
  from t k i have "operator_index_Slice ?cfg ''buffer.h'' 0 (slice 2 ?b 0 10) 1
       = Inr (get (mMemory ?b) + sint (2::c_int))
     \<and> operator_index ?cfg ?b 2 = Inr (get (mMemory ?b) + sint (2::c_int))"
    by blast
  with 1 show ?thesis by simp
qed

text \<open>
  C5. For a valid index \<open>i\<close> of a buffer whose elements are live, \<open>buffer[i]\<close> returns
  the reference to element \<open>i\<close> of the backing memory, \<open>memory + i\<close>; a value written
  through it is the value read through the const accessor, through any other buffer
  whose valid index resolves to that element (a buffer on the same handle at the same
  index among them), and through any slice (modelled from the spec) whose valid index
  resolves to it.
\<close>

theorem index_mutation_shared:
  assumes "in_bounds i (mSize b)" and "backed h b"
  shows "operator_index cfg b i = Inr (get (mMemory b) + sint i)
    \<and> (\<exists>h'. assign_at h (operator_index cfg b i) v = Some h'
         \<and> read_at h' (operator_index_const cfg b i) = Some v
         \<and> (\<forall>b' j. in_bounds j (mSize b')
                  \<and> get (mMemory b') + sint j = get (mMemory b) + sint i
              \<longrightarrow> read_at h' (operator_index cfg b' j) = Some v
                \<and> read_at h' (operator_index_const cfg b' j) = Some v)
         \<and> (\<forall>sl k file line. in_bounds k (size_Slice sl)
                  \<and> get (sMemory sl) + (uint (origin_offset sl) + sint k * uint (stride sl))
                      = get (mMemory b) + sint i
              \<longrightarrow> read_at h' (operator_index_Slice cfg file line sl k) = Some v))"
proof -
  let ?r = "get (mMemory b) + sint i"
  have ref: "operator_index cfg b i = Inr ?r"
    using assms(1) by (rule operator_index_in_bounds)
  have cref: "operator_index_const cfg b i = Inr ?r"
    using assms(1) by (rule operator_index_const_in_bounds)
  have "\<exists>h'. assign_at h (Inr ?r) v = Some h' \<and> read_at h' (Inr ?r) = Some v"
    by (rule assign_then_read [OF backed_cell [OF assms(2) assms(1)]])
  then obtain h'
    where w: "assign_at h (Inr ?r) v = Some h'" and rd: "read_at h' (Inr ?r) = Some v"
    by blast
  have bufs: "read_at h' (operator_index cfg b' j) = Some v
                \<and> read_at h' (operator_index_const cfg b' j) = Some v"
    if "in_bounds j (mSize b') \<and> get (mMemory b') + sint j = ?r" for b' j
    using that rd by (simp add: operator_index_in_bounds operator_index_const_in_bounds)
  have slices: "read_at h' (operator_index_Slice cfg f l sl k) = Some v"
    if "in_bounds k (size_Slice sl)
        \<and> get (sMemory sl) + (uint (origin_offset sl) + sint k * uint (stride sl)) = ?r"
    for sl k f l
    using that rd by (simp add: size_Slice_def operator_index_Slice_in_bounds)
  from w rd bufs slices show ?thesis
    unfolding ref cref by blast
qed

theorem index_mutation_shared_witness:
  "(case assign_at
           \<lparr>cells = (\<lambda>a. if 1 \<le> a \<and> a < 11 then Some (0::int) else None),
            brk = 11, capacity = 64, next_owner = 1\<rparr>
           (operator_index
              \<lparr>CPPBUFFER_USES_ASSERT = True, CPPBUFFER_ASSERT_USES_CASSERT = False,
               CPPBUFFER_ASSERT_USES_EXCEPTIONS = True, NDEBUG = False\<rparr>
              \<lparr>mMemory = \<lparr>get = 1, owner = Some 0\<rparr>, mSize = 10\<rparr> 2) 7 of
      None \<Rightarrow> False
    | Some h' \<Rightarrow>
        read_at h' (operator_index_const
              \<lparr>CPPBUFFER_USES_ASSERT = True, CPPBUFFER_ASSERT_USES_CASSERT = False,
               CPPBUFFER_ASSERT_USES_EXCEPTIONS = True, NDEBUG = False\<rparr>
              \<lparr>mMemory = \<lparr>get = 1, owner = Some 0\<rparr>, mSize = 5\<rparr> 2) = Some 7
        \<and> read_at h' (operator_index_Slice
              \<lparr>CPPBUFFER_USES_ASSERT = True, CPPBUFFER_ASSERT_USES_CASSERT = False,
               CPPBUFFER_ASSERT_USES_EXCEPTIONS = True, NDEBUG = False\<rparr> ''buffer.h'' 0
              (slice 2 \<lparr>mMemory = \<lparr>get = 1, owner = Some 0\<rparr>, mSize = 10\<rparr> 0 10) 1) = Some 7)"
proof -
  let ?h = "\<lparr>cells = (\<lambda>a. if 1 \<le> a \<and> a < 11 then Some (0::int) else None),
            brk = 11, capacity = 64, next_owner = 1\<rparr>"
  let ?cfg = "\<lparr>CPPBUFFER_USES_ASSERT = True, CPPBUFFER_ASSERT_USES_CASSERT = False,
               CPPBUFFER_ASSERT_USES_EXCEPTIONS = True, NDEBUG = False\<rparr>"
  let ?b = "\<lparr>mMemory = \<lparr>get = 1, owner = Some 0\<rparr>, mSize = 10\<rparr>"
  let ?b' = "\<lparr>mMemory = \<lparr>get = 1, owner = Some 0\<rparr>, mSize = 5\<rparr>"
  let ?sl = "slice 2 ?b 0 10"
  have i: "in_bounds 2 (mSize ?b)" by (simp add: in_bounds_def)
  have bk: "backed ?h ?b" by (auto simp: backed_def)
  have j: "in_bounds 2 (mSize ?b') \<and> get (mMemory ?b') + sint (2::c_int) = get (mMemory ?b) + sint (2::c_int)"
    by (simp add: in_bounds_def)
  have k: "in_bounds 1 (size_Slice ?sl)
      \<and> get (sMemory ?sl) + (uint (origin_offset ?sl) + sint (1::c_int) * uint (stride ?sl))
          = get (mMemory ?b) + sint (2::c_int)"
    by (simp add: in_bounds_def size_Slice_def slice_def Slice_ctor_def)
  from index_mutation_shared [OF i bk, of ?cfg 7] obtain h'
    where w: "assign_at ?h (operator_index ?cfg ?b 2) 7 = Some h'"
      and bufs: "\<forall>b' j. in_bounds j (mSize b')
                  \<and> get (mMemory b') + sint j = get (mMemory ?b) + sint (2::c_int)
              \<longrightarrow> read_at h' (operator_index ?cfg b' j) = Some 7
                \<and> read_at h' (operator_index_const ?cfg b' j) = Some 7"
      and slices: "\<forall>sl k f l. in_bounds k (size_Slice sl)
                  \<and> get (sMemory sl) + (uint (origin_offset sl) + sint k * uint (stride sl))
                      = get (mMemory ?b) + sint (2::c_int)
              \<longrightarrow> read_at h' (operator_index_Slice ?cfg f l sl k) = Some 7"
    by blast
  from bufs j have 1: "read_at h' (operator_index_const ?cfg ?b' 2) = Some 7" by blast
  from slices k have 2: "read_at h' (operator_index_Slice ?cfg ''buffer.h'' 0 ?sl 1) = Some 7"
    by blast
  from w 1 2 show ?thesis by simp
qed

text \<open>
  C10. The copy constructor and copy assignment are shallow: the copy has the size,
  the \<open>begin()\<close> and the handle of the original, and a value written at a valid index
  through the copy is the value read at that index through the original.
\<close>

theorem copy_is_shallow:
  "size_Buffer (Buffer_copy b) = size_Buffer b
   \<and> begin_Buffer (Buffer_copy b) = begin_Buffer b
   \<and> begin_const (Buffer_copy b) = begin_const b
   \<and> mMemory (Buffer_copy b) = mMemory b
   \<and> size_Buffer (operator_assign t b) = size_Buffer b
   \<and> begin_Buffer (operator_assign t b) = begin_Buffer b
   \<and> begin_const (operator_assign t b) = begin_const b
   \<and> mMemory (operator_assign t b) = mMemory b
   \<and> (in_bounds i (mSize b) \<and> backed h b \<longrightarrow>
        (\<exists>h'. assign_at h (operator_index cfg (Buffer_copy b) i) v = Some h'
             \<and> read_at h' (operator_index_const cfg b i) = Some v)
      \<and> (\<exists>h'. assign_at h (operator_index cfg (operator_assign t b) i) v = Some h'
             \<and> read_at h' (operator_index_const cfg b i) = Some v))"
  using write_then_read_index [of i b h cfg v]
  by (simp add: Buffer_copy_eq operator_assign_eq)

theorem copy_is_shallow_witness:
  "(case assign_at
           \<lparr>cells = (\<lambda>a. if 1 \<le> a \<and> a < 11 then Some (0::int) else None),
            brk = 11, capacity = 64, next_owner = 1\<rparr>
           (operator_index
              \<lparr>CPPBUFFER_USES_ASSERT = True, CPPBUFFER_ASSERT_USES_CASSERT = False,
               CPPBUFFER_ASSERT_USES_EXCEPTIONS = True, NDEBUG = False\<rparr>
              (Buffer_copy \<lparr>mMemory = \<lparr>get = 1, owner = Some 0\<rparr>, mSize = 10\<rparr>) 3) 7 of
      None \<Rightarrow> False
    | Some h' \<Rightarrow>
        read_at h' (operator_index_const
              \<lparr>CPPBUFFER_USES_ASSERT = True, CPPBUFFER_ASSERT_USES_CASSERT = False,
               CPPBUFFER_ASSERT_USES_EXCEPTIONS = True, NDEBUG = False\<rparr>
              \<lparr>mMemory = \<lparr>get = 1, owner = Some 0\<rparr>, mSize = 10\<rparr> 3) = Some 7)"
proof -
  let ?h = "\<lparr>cells = (\<lambda>a. if 1 \<le> a \<and> a < 11 then Some (0::int) else None),
            brk = 11, capacity = 64, next_owner = 1\<rparr>"
  let ?cfg = "\<lparr>CPPBUFFER_USES_ASSERT = True, CPPBUFFER_ASSERT_USES_CASSERT = False,
               CPPBUFFER_ASSERT_USES_EXCEPTIONS = True, NDEBUG = False\<rparr>"
  let ?b = "\<lparr>mMemory = \<lparr>get = 1, owner = Some 0\<rparr>, mSize = 10\<rparr>"
  have i: "in_bounds 3 (mSize ?b)" by (simp add: in_bounds_def)
  have bk: "backed ?h ?b" by (auto simp: backed_def)
  from copy_is_shallow [of ?b Buffer_default 3 ?h ?cfg 7] i bk obtain h'
    where w: "assign_at ?h (operator_index ?cfg (Buffer_copy ?b) 3) 7 = Some h'"
      and r: "read_at h' (operator_index_const ?cfg ?b 3) = Some 7"
    by blast
  then show ?thesis by simp
qed

end
